theory Spec2Isabelle
  imports Complex_Main
begin

section \<open>JavaScript values and built-ins used by \<^verbatim>\<open>src/lib/utils.ts\<close>\<close>

text \<open>
  An \<^verbatim>\<open>async\<close> function settles its promise either with a value or with the
  exception that left its body. A promise is therefore a sum: \<open>Inr v\<close> is the fulfilled
  promise, \<open>Inl e\<close> the rejected one (what \<^verbatim>\<open>await\<close> rethrows in the caller).
\<close>

datatype js_error = Error string

type_synonym 'a promise = "js_error + 'a"

text \<open>
  Every function of the analyzer section has the shape
  \<^verbatim>\<open>try { ... } catch (error) { console.error(msg, error); throw error; }\<close>:
  the handler logs to the console and throws the same exception again, so the promise of
  the body is the promise of the function. The console line is not part of the result.
\<close>

definition try_catch_rethrow :: "'a promise \<Rightarrow> 'a promise" where
  "try_catch_rethrow body = (case body of Inr v \<Rightarrow> Inr v | Inl e \<Rightarrow> Inl e)"

text \<open>
  \<^verbatim>\<open>Array.prototype.slice(start, end)\<close> on integral arguments: a negative index counts
  from the end of the array, both indices are clamped to the array, and an empty range
  gives the empty array.
\<close>

definition slice_js :: "'a list \<Rightarrow> int \<Rightarrow> int \<Rightarrow> 'a list" where
  "slice_js xs start fin =
     (let len = int (length xs);
          k = (if start < 0 then max (len + start) 0 else min start len);
          final = (if fin < 0 then max (len + fin) 0 else min fin len);
          count = max (final - k) 0
      in take (nat count) (drop (nat k) xs))"

text \<open>
  \<^verbatim>\<open>String.prototype.split(sep)\<close> for a one-character separator: the pieces between
  the separators, in order; the result is never empty (\<^verbatim>\<open>"".split("/")\<close> is
  \<^verbatim>\<open>[""]\<close>).
\<close>

fun split_js :: "char \<Rightarrow> string \<Rightarrow> string list" where
  "split_js sep [] = [[]]"
| "split_js sep (c # cs) =
     (if c = sep then [] # split_js sep cs
      else (case split_js sep cs of
              [] \<Rightarrow> [[c]]
            | w # ws \<Rightarrow> (c # w) # ws))"

text \<open>\<^verbatim>\<open>Array.prototype.pop()\<close> read for its value: the last element, or \<^verbatim>\<open>undefined\<close>.\<close>

definition pop_js :: "'a list \<Rightarrow> 'a option" where
  "pop_js xs = (if xs = [] then None else Some (last xs))"

text \<open>
  \<^verbatim>\<open>a || b\<close> where \<open>a\<close> is a string or \<^verbatim>\<open>undefined\<close> and \<open>b\<close> a string:
  \<^verbatim>\<open>undefined\<close> and the empty string are falsy.
\<close>

definition or_js :: "string option \<Rightarrow> string \<Rightarrow> string" where
  "or_js a b = (case a of None \<Rightarrow> b | Some s \<Rightarrow> if s = [] then b else s)"

text \<open>
  \<^verbatim>\<open>new Date().toISOString()\<close>: the clock is read as a time value, an integral number
  of milliseconds since 1970-01-01T00:00:00Z, and printed as
  \<^verbatim>\<open>YYYY-MM-DDTHH:mm:ss.sssZ\<close> in the proleptic Gregorian calendar (years outside
  0..9999 as a sign and six digits).
\<close>

fun pad_dec :: "nat \<Rightarrow> int \<Rightarrow> string" where
  "pad_dec 0 n = []"
| "pad_dec (Suc w) n = pad_dec w (n div 10) @ [char_of (48 + n mod 10)]"

definition civil_from_days :: "int \<Rightarrow> int \<times> int \<times> int" where
  "civil_from_days days =
     (let z = days + 719468;
          era = z div 146097;
          doe = z - era * 146097;
          yoe = (doe - doe div 1460 + doe div 36524 - doe div 146096) div 365;
          y = yoe + era * 400;
          doy = doe - (365 * yoe + yoe div 4 - yoe div 100);
          mp = (5 * doy + 2) div 153;
          d = doy - (153 * mp + 2) div 5 + 1;
          m = (if mp < 10 then mp + 3 else mp - 9)
      in (if m \<le> 2 then y + 1 else y, m, d))"

definition toISOString :: "int \<Rightarrow> string" where
  "toISOString t =
     (let (y, m, d) = civil_from_days (t div 86400000);
          ms = t mod 86400000;
          year = (if 0 \<le> y \<and> y \<le> 9999 then pad_dec 4 y
                  else (if y < 0 then ''-'' else ''+'') @ pad_dec 6 \<bar>y\<bar>)
      in year @ ''-'' @ pad_dec 2 m @ ''-'' @ pad_dec 2 d @ ''T'' @
         pad_dec 2 (ms div 3600000) @ '':'' @ pad_dec 2 (ms div 60000 mod 60) @ '':'' @
         pad_dec 2 (ms div 1000 mod 60) @ ''.'' @ pad_dec 3 (ms mod 1000) @ ''Z'')"

section \<open>The data model of the analyzer section\<close>

text \<open>
  \<^verbatim>\<open>RustFileInfo\<close>, \<^verbatim>\<open>RustTreeNode\<close>, \<^verbatim>\<open>RustFileStructure\<close> and
  \<^verbatim>\<open>RustHecRasData\<close> of \<^verbatim>\<open>utils.ts\<close>. An optional field (\<^verbatim>\<open>error?\<close>,
  \<^verbatim>\<open>shape?\<close>, \<^verbatim>\<open>dtype?\<close>) is an \<open>option\<close>; a \<^verbatim>\<open>Record<string, T>\<close> is an
  association list in the order of the object literal. Record fields carry the name of
  their interface as a prefix, since several interfaces share field names.
\<close>

record RustFileInfo =
  info_name :: string
  info_path :: string
  info_size_mb :: real
  info_modified :: string
  info_accessible :: bool
  info_groups_count :: int
  info_datasets_count :: int
  info_error :: "string option"

datatype RustTreeNode =
  RustTreeNode
    (name: string)
    (path: string)
    (node_type: string)
    (children: "RustTreeNode list")
    (attributes: "(string \<times> string) list")
    (shape: "int list option")
    (dtype: "string option")

record RustFileStructure =
  struct_file_path :: string
  struct_root :: RustTreeNode
  struct_total_groups :: int
  struct_total_datasets :: int
  struct_error :: "string option"

record RustHecRasData =
  hec_file :: string
  hec_geometry_data :: "(string \<times> real list) list"
  hec_results_data :: "(string \<times> real list) list"
  hec_metadata :: "(string \<times> string) list"
  hec_extraction_summary :: "(string \<times> int) list"

section \<open>The sample operation\<close>

text \<open>
  \<^verbatim>\<open>
  export async function readHdf5DatasetSample(
    filePath: string, datasetPath: string, maxElements: number = 10
  ): Promise<number[]> {
    try {
      // For now, return mock data
      const mockData = [10.5, 11.2, 9.8, 12.1, 10.9, 11.5, 10.3, 12.8, 9.5, 11.8];
      return mockData.slice(0, maxElements);
    } catch (error) { console.error(...); throw error; }
  }
  \<close>
  The element count is an integral \<^verbatim>\<open>number\<close>; an omitted third argument is
  \<open>None\<close> and takes the default 10.
\<close>

definition mockData :: "real list" where
  "mockData = [10.5, 11.2, 9.8, 12.1, 10.9, 11.5, 10.3, 12.8, 9.5, 11.8]"

definition readHdf5DatasetSample :: "string \<Rightarrow> string \<Rightarrow> int option \<Rightarrow> real list promise" where
  "readHdf5DatasetSample filePath datasetPath maxElements_arg =
     (let maxElements = (case maxElements_arg of None \<Rightarrow> 10 | Some n \<Rightarrow> n)
      in try_catch_rethrow (Inr (slice_js mockData 0 maxElements)))"

section \<open>The info operation\<close>

text \<open>
  \<^verbatim>\<open>
  async function getFileStats(filePath: string): Promise<{ size: number }> {
    // Mock implementation - in real scenario would use file system API
    return { size: 1024 * 1024 * 10 }; // 10MB mock size
  }
  \<close>
\<close>

record FileStats =
  stats_size :: int

definition getFileStats :: "string \<Rightarrow> FileStats promise" where
  "getFileStats filePath = Inr \<lparr>stats_size = 1024 * 1024 * 10\<rparr>"

text \<open>
  \<^verbatim>\<open>
  export async function analyzeHdf5Info(filePath: string): Promise<RustFileInfo> {
    try {
      const stats = await getFileStats(filePath);
      return {
        name: filePath.split("/").pop() || filePath.split("\\").pop() || "unknown",
        path: filePath,
        size_mb: stats.size / (1024 * 1024),
        modified: new Date().toISOString(),
        accessible: true,
        groups_count: 5, // Mock data
        datasets_count: 15, // Mock data
      };
    } catch (error) { console.error(...); throw error; }
  }
  \<close>
  The function reads the clock; the time value it reads is the argument \<open>now\<close>.
  A rejected \<^verbatim>\<open>await\<close> leaves the \<^verbatim>\<open>try\<close> block with its exception. The
  quotient by \<open>2^20\<close> is exact on doubles, so it is the quotient of reals.
\<close>

definition analyzeHdf5Info :: "int \<Rightarrow> string \<Rightarrow> RustFileInfo promise" where
  "analyzeHdf5Info now filePath =
     try_catch_rethrow
       (case getFileStats filePath of
          Inl e \<Rightarrow> Inl e
        | Inr stats \<Rightarrow>
            Inr \<lparr>info_name =
                   or_js (pop_js (split_js CHR ''/'' filePath))
                     (or_js (pop_js (split_js (CHR 0x5C) filePath)) ''unknown''),
                 info_path = filePath,
                 info_size_mb = real_of_int (stats_size stats) / (1024 * 1024),
                 info_modified = toISOString now,
                 info_accessible = True,
                 info_groups_count = 5,
                 info_datasets_count = 15,
                 info_error = None\<rparr>)"

section \<open>The structure operation\<close>

text \<open>
  \<^verbatim>\<open>
  export async function analyzeHdf5Structure(filePath: string): Promise<RustFileStructure> {
    try {
      // For now, create a mock structure
      return {
        file_path: filePath,
        root: { name: "root", path: "/", node_type: "group",
                children: [
                  { name: "Geometry", path: "/Geometry", node_type: "group",
                    children: [], attributes: {} },
                  { name: "Results", path: "/Results", node_type: "group",
                    children: [], attributes: {} } ],
                attributes: {} },
        total_groups: 5,
        total_datasets: 15,
      };
    } catch (error) { console.error(...); throw error; }
  }
  \<close>
\<close>

definition analyzeHdf5Structure :: "string \<Rightarrow> RustFileStructure promise" where
  "analyzeHdf5Structure filePath =
     try_catch_rethrow
       (Inr \<lparr>struct_file_path = filePath,
             struct_root =
               RustTreeNode ''root'' ''/'' ''group''
                 [RustTreeNode ''Geometry'' ''/Geometry'' ''group'' [] [] None None,
                  RustTreeNode ''Results'' ''/Results'' ''group'' [] [] None None]
                 [] None None,
             struct_total_groups = 5,
             struct_total_datasets = 15,
             struct_error = None\<rparr>)"

section \<open>The datasets and extract operations\<close>

text \<open>\<^verbatim>\<open>listHdf5Datasets\<close> returns a fixed list of five dataset paths.\<close>

definition listHdf5Datasets :: "string \<Rightarrow> string list promise" where
  "listHdf5Datasets filePath =
     try_catch_rethrow
       (Inr [''/Geometry/2D Flow Areas/Area 2D/Cells Center Coordinate'',
             ''/Results/2D/MaxWSE'',
             ''/Results/2D/Velocity'',
             ''/Plan Data/Plan Information'',
             ''/Event Conditions/Unsteady''])"

text \<open>\<^verbatim>\<open>extractHecRasData\<close> returns a fixed extraction result for the given path.\<close>

definition extractHecRasData :: "string \<Rightarrow> RustHecRasData promise" where
  "extractHecRasData filePath =
     try_catch_rethrow
       (Inr \<lparr>hec_file = filePath,
             hec_geometry_data =
               [(''/Geometry/2D Flow Areas/Area 2D/Cells Center Coordinate'',
                 [1.0, 2.0, 3.0, 4.0, 5.0])],
             hec_results_data = [(''/Results/2D/MaxWSE'', [10.5, 11.2, 9.8, 12.1, 10.9])],
             hec_metadata = [(''File Type'', ''HEC-RAS Plan File''), (''Version'', ''6.3.1'')],
             hec_extraction_summary = [(''geometry_datasets'', 1), (''results_datasets'', 1)]\<rparr>)"

section \<open>The folder scan\<close>

text \<open>
  \<^verbatim>\<open>
  export async function findHdf5Files(folderPath: string): Promise<RustFileInfo[]> {
    try {
      const response = await findHdfFiles(folderPath);
      if (!response.success) {
        throw new Error(response.error || "Error finding HDF files");
      }
      return response.files.map((file) => ({
        name: file.filename, path: file.full_path,
        size_mb: file.size / (1024 * 1024),
        modified: new Date().toISOString(), // Mock date
        accessible: file.can_process,
        groups_count: 5, datasets_count: 15, error: file.error }));
    } catch (error) { console.error(...); throw error; }
  }
  \<close>
  \<^verbatim>\<open>findHdfFiles\<close> forwards to the Python backend, which is not part of these
  sources: the promise it settles with is the argument \<open>response\<close>. The record of a
  backend file has the fields the mapping reads. The mapping reads the clock once per
  file: \<open>clock i\<close> is the time value read for the file at index \<open>i\<close>.
\<close>

record BackendFile =
  filename :: string
  full_path :: string
  file_size :: int
  can_process :: bool
  file_error :: "string option"

record HdfExplorerFilesResponse =
  success :: bool
  files :: "BackendFile list"
  response_error :: "string option"

definition findHdf5Files ::
  "(nat \<Rightarrow> int) \<Rightarrow> HdfExplorerFilesResponse promise \<Rightarrow> string \<Rightarrow> RustFileInfo list promise" where
  "findHdf5Files clock response folderPath =
     try_catch_rethrow
       (case response of
          Inl e \<Rightarrow> Inl e
        | Inr r \<Rightarrow>
            if \<not> success r
            then Inl (Error (or_js (response_error r) ''Error finding HDF files''))
            else Inr (map (\<lambda>(i, file).
                        \<lparr>info_name = filename file,
                         info_path = full_path file,
                         info_size_mb = real_of_int (file_size file) / (1024 * 1024),
                         info_modified = toISOString (clock i),
                         info_accessible = can_process file,
                         info_groups_count = 5,
                         info_datasets_count = 15,
                         info_error = file_error file\<rparr>) (enumerate 0 (files r))))"

section \<open>The command-line front end (\<^verbatim>\<open>src-tauri/hdf5_analyzer.rs.bak\<close>)\<close>

text \<open>
  \<^verbatim>\<open>main\<close> returns \<^verbatim>\<open>anyhow::Result<()>\<close>: \<open>Inr ()\<close> is \<^verbatim>\<open>Ok(())\<close>,
  \<open>Inl msg\<close> is \<^verbatim>\<open>Err\<close>. The runtime turns the value \<^verbatim>\<open>main\<close> returns into the
  exit status of the process: 0 for \<^verbatim>\<open>Ok\<close>, 1 for \<^verbatim>\<open>Err\<close>.
\<close>

type_synonym 'a result = "string + 'a"

definition exit_code :: "unit result \<Rightarrow> nat" where
  "exit_code r = (case r of Inr _ \<Rightarrow> 0 | Inl _ \<Rightarrow> 1)"

text \<open>
  The library \<^verbatim>\<open>eFlow_lib::hdf5_analyzer::HDF5Analyzer\<close> is not part of these sources.
  It is a parameter: for each of its five entry points and each argument list it says
  whether the call fails, and with which message. What a successful call returns is only
  printed by the front end and is left out.
\<close>

datatype analyzer_call =
    Get_file_info string
  | Get_file_structure string
  | List_datasets string
  | Extract_hecras_data string
  | Read_dataset_sample string string nat

type_synonym analyzer = "analyzer_call \<Rightarrow> unit result"

text \<open>
  What the front end does, in order: a line on standard error, the usage text on
  standard output, or a call of the library (with the report the wrapper prints around it).
\<close>

datatype cli_event = Eprintln string | Print_usage | Run analyzer_call

text \<open>
  Each wrapper (\<^verbatim>\<open>analyze_file_info\<close>, \<^verbatim>\<open>analyze_file_structure\<close>,
  \<^verbatim>\<open>list_datasets\<close>, \<^verbatim>\<open>analyze_hecras_data\<close>, \<^verbatim>\<open>read_dataset_sample\<close>) calls one
  entry point, \<^verbatim>\<open>.with_context(|| format!(...))?\<close>, prints, and returns
  \<^verbatim>\<open>Ok(())\<close>: it fails exactly when the library call fails, with the context
  message put before the cause.
\<close>

definition with_context :: "string \<Rightarrow> unit result \<Rightarrow> unit result" where
  "with_context msg r = (case r of Inr v \<Rightarrow> Inr v | Inl cause \<Rightarrow> Inl (msg @ '': '' @ cause))"

definition analyze_file_info :: "analyzer \<Rightarrow> string \<Rightarrow> cli_event list \<times> unit result" where
  "analyze_file_info lib file_path =
     ([Run (Get_file_info file_path)],
      with_context (''Error al analizar el archivo: '' @ file_path)
        (lib (Get_file_info file_path)))"

definition analyze_file_structure :: "analyzer \<Rightarrow> string \<Rightarrow> cli_event list \<times> unit result" where
  "analyze_file_structure lib file_path =
     ([Run (Get_file_structure file_path)],
      with_context (''Error al analizar la estructura: '' @ file_path)
        (lib (Get_file_structure file_path)))"

definition list_datasets :: "analyzer \<Rightarrow> string \<Rightarrow> cli_event list \<times> unit result" where
  "list_datasets lib file_path =
     ([Run (List_datasets file_path)],
      with_context (''Error al listar datasets: '' @ file_path)
        (lib (List_datasets file_path)))"

definition analyze_hecras_data :: "analyzer \<Rightarrow> string \<Rightarrow> cli_event list \<times> unit result" where
  "analyze_hecras_data lib file_path =
     ([Run (Extract_hecras_data file_path)],
      with_context (''Error al extraer datos de HEC-RAS: '' @ file_path)
        (lib (Extract_hecras_data file_path)))"

definition read_dataset_sample ::
  "analyzer \<Rightarrow> string \<Rightarrow> string \<Rightarrow> nat \<Rightarrow> cli_event list \<times> unit result" where
  "read_dataset_sample lib file_path dataset_path max_elements =
     ([Run (Read_dataset_sample file_path dataset_path max_elements)],
      with_context (''Error al leer dataset: '' @ dataset_path)
        (lib (Read_dataset_sample file_path dataset_path max_elements)))"

text \<open>
  \<^verbatim>\<open>args[4].parse()\<close> at type \<^verbatim>\<open>usize\<close> (the type of the parameter
  \<^verbatim>\<open>max_elements\<close>), on a 64-bit target: the empty string and a lone sign are
  errors; one leading \<^verbatim>\<open>+\<close> is dropped; every remaining byte must be a decimal
  digit; a value anc \<^verbatim>\<open>usize::MAX\<close> is an error.
\<close>

definition usize_MAX :: nat where
  "usize_MAX = 2 ^ 64 - 1"

definition to_digit :: "char \<Rightarrow> nat option" where
  "to_digit c = (let n = (of_char c :: nat) in if 48 \<le> n \<and> n \<le> 57 then Some (n - 48) else None)"

fun parse_digits :: "nat \<Rightarrow> string \<Rightarrow> nat option" where
  "parse_digits acc [] = Some acc"
| "parse_digits acc (c # cs) =
     (case to_digit c of
        None \<Rightarrow> None
      | Some d \<Rightarrow> if acc * 10 + d > usize_MAX then None else parse_digits (acc * 10 + d) cs)"

definition parse_usize :: "string \<Rightarrow> nat option" where
  "parse_usize src =
     (if src = [] then None
      else if src = ''+'' \<or> src = ''-'' then None
      else if hd src = CHR ''+'' then parse_digits 0 (tl src)
      else parse_digits 0 src)"

text \<open>
  \<^verbatim>\<open>main\<close>, on the argument vector (\<^verbatim>\<open>args[0]\<close> is the program's name). Every
  index is read under the length check the source makes before it.
\<close>

definition main :: "analyzer \<Rightarrow> string list \<Rightarrow> cli_event list \<times> unit result" where
  "main lib args =
     (if length args < 2 then ([Print_usage], Inr ())
      else
        let command = args ! 1 in
        if command = ''info'' then
          (if length args < 3
           then ([Eprintln ''Error: Se requiere la ruta del archivo HDF5'', Print_usage], Inr ())
           else analyze_file_info lib (args ! 2))
        else if command = ''structure'' then
          (if length args < 3
           then ([Eprintln ''Error: Se requiere la ruta del archivo HDF5'', Print_usage], Inr ())
           else analyze_file_structure lib (args ! 2))
        else if command = ''datasets'' then
          (if length args < 3
           then ([Eprintln ''Error: Se requiere la ruta del archivo HDF5'', Print_usage], Inr ())
           else list_datasets lib (args ! 2))
        else if command = ''hecras'' then
          (if length args < 3
           then ([Eprintln ''Error: Se requiere la ruta del archivo HDF5'', Print_usage], Inr ())
           else analyze_hecras_data lib (args ! 2))
        else if command = ''sample'' then
          (if length args < 4
           then ([Eprintln ''Error: Se requiere la ruta del archivo HDF5 y el path del dataset'',
                  Print_usage], Inr ())
           else
             let file_path = args ! 2;
                 dataset_path = args ! 3;
                 max_elements =
                   (if length args > 4
                    then (case parse_usize (args ! 4) of Some n \<Rightarrow> n | None \<Rightarrow> 10)
                    else 10)
             in read_dataset_sample lib file_path dataset_path max_elements)
        else if command = ''help'' \<or> command = ''--help'' \<or> command = ''-h'' then
          ([Print_usage], Inr ())
        else
          ([Eprintln (''Error: Comando desconocido '' @ [CHR 0x27] @ command @ [CHR 0x27]),
            Print_usage], Inr ()))"

text \<open>Two libraries for the examples: one whose calls all succeed, one whose calls all fail.\<close>

definition analyzer_ok :: analyzer where
  "analyzer_ok call = Inr ()"

definition analyzer_failing :: analyzer where
  "analyzer_failing call = Inl ''cannot open file''"

section \<open>Notions the properties are stated with\<close>

text \<open>The number of nodes of a tree, and of nodes below its root.\<close>

fun count_nodes :: "RustTreeNode \<Rightarrow> nat" where
  "count_nodes (RustTreeNode nm p ty cs atts sh dt) = Suc (sum_list (map count_nodes cs))"

definition non_root_nodes :: "RustTreeNode \<Rightarrow> nat" where
  "non_root_nodes r = sum_list (map count_nodes (children r))"

text \<open>
  The path a node must carry when the names on the way from the root down to it (the
  root left out, the node included) are \<open>names\<close>: each name after a slash.
\<close>

definition path_of_names :: "string list \<Rightarrow> string" where
  "path_of_names names = concat (map (\<lambda>n. ''/'' @ n) names)"

fun paths_follow_names :: "string list \<Rightarrow> RustTreeNode \<Rightarrow> bool" where
  "paths_follow_names anc (RustTreeNode nm p ty cs atts sh dt) =
     (p = path_of_names (anc @ [nm]) \<and> list_all (paths_follow_names (anc @ [nm])) cs)"

fun datasets_are_leaves :: "RustTreeNode \<Rightarrow> bool" where
  "datasets_are_leaves (RustTreeNode nm p ty cs atts sh dt) =
     ((ty = ''dataset'' \<longrightarrow> cs = []) \<and> list_all datasets_are_leaves cs)"

definition tree_invariant :: "RustTreeNode \<Rightarrow> bool" where
  "tree_invariant r =
     (path r = ''/'' \<and> list_all (paths_follow_names []) (children r) \<and> datasets_are_leaves r)"

text \<open>The node a path resolves to in a tree: the first node, in pre-order, that carries it.\<close>

fun find_node :: "string \<Rightarrow> RustTreeNode \<Rightarrow> RustTreeNode option" where
  "find_node q (RustTreeNode nm p ty cs atts sh dt) =
     (if p = q then Some (RustTreeNode nm p ty cs atts sh dt)
      else List.fold (\<lambda>c found. case found of Some n \<Rightarrow> Some n | None \<Rightarrow> find_node q c) cs None)"

text \<open>
  The kind of entry a path resolves to in a file, read from the tree the structure
  operation returns for that file.
\<close>

definition resolves_to :: "string \<Rightarrow> string \<Rightarrow> string option" where
  "resolves_to filePath p =
     (case analyzeHdf5Structure filePath of
        Inl e \<Rightarrow> None
      | Inr s \<Rightarrow> map_option node_type (find_node p (struct_root s)))"

text \<open>
  The two numbers the structure operation's counts are compared by: the sum of the
  reported totals, and the number of nodes below the returned root.
\<close>

definition reported_total :: "string \<Rightarrow> int option" where
  "reported_total filePath =
     (case analyzeHdf5Structure filePath of
        Inl e \<Rightarrow> None
      | Inr s \<Rightarrow> Some (struct_total_groups s + struct_total_datasets s))"

definition reachable_total :: "string \<Rightarrow> int option" where
  "reachable_total filePath =
     (case analyzeHdf5Structure filePath of
        Inl e \<Rightarrow> None
      | Inr s \<Rightarrow> Some (int (non_root_nodes (struct_root s))))"

text \<open>
  The flattened content of a dataset of a file, as far as these sources tell it: what
  the extract operation returns under the dataset's path.
\<close>

definition dataset_of :: "string \<Rightarrow> string \<Rightarrow> real list option" where
  "dataset_of filePath datasetPath =
     (case extractHecRasData filePath of
        Inl e \<Rightarrow> None
      | Inr d \<Rightarrow> map_of (hec_geometry_data d @ hec_results_data d) datasetPath)"

text \<open>
  Invalid usage of the command line: a first argument that is no subcommand, or a
  subcommand with fewer arguments than it requires.
\<close>

definition unknown_subcommand :: "string list \<Rightarrow> bool" where
  "unknown_subcommand args =
     (2 \<le> length args \<and>
      args ! 1 \<notin> set [''info'', ''structure'', ''datasets'', ''hecras'', ''sample'',
                        ''help'', ''--help'', ''-h''])"

definition missing_arguments :: "string list \<Rightarrow> bool" where
  "missing_arguments args =
     (2 \<le> length args \<and>
      (args ! 1 \<in> set [''info'', ''structure'', ''datasets'', ''hecras''] \<and> length args < 3
       \<or> args ! 1 = ''sample'' \<and> length args < 4))"

definition invalid_usage :: "string list \<Rightarrow> bool" where
  "invalid_usage args = (unknown_subcommand args \<or> missing_arguments args)"

text \<open>
  The exit status agrees with the library calls the front end made: it is 0 exactly when
  none of them failed.
\<close>

definition exit_matches_calls :: "analyzer \<Rightarrow> cli_event list \<times> unit result \<Rightarrow> bool" where
  "exit_matches_calls lib out =
     (exit_code (snd out) = 0 \<longleftrightarrow> (\<forall>c. Run c \<in> set (fst out) \<longrightarrow> \<not> isl (lib c)))"

section \<open>The JavaScript values the operations return\<close>

text \<open>
  What a caller holds after \<^verbatim>\<open>await\<close>: a number, a string, an array, or an object
  with its properties in the order of the object literal. Each record of the data model
  is the object its \<^verbatim>\<open>return { ... }\<close> builds, property by property; an optional
  property the literal leaves out is left out.
\<close>

datatype js_value =
    JUndefined
  | JBool bool
  | JNum real
  | JStr string
  | JArr "js_value list"
  | JObj "(string \<times> js_value) list"

definition js_numbers :: "real list \<Rightarrow> js_value" where
  "js_numbers xs = JArr (map JNum xs)"

definition js_strings :: "string list \<Rightarrow> js_value" where
  "js_strings ss = JArr (map JStr ss)"

definition js_int :: "int \<Rightarrow> js_value" where
  "js_int n = JNum (real_of_int n)"

definition js_optional :: "string \<Rightarrow> ('a \<Rightarrow> js_value) \<Rightarrow> 'a option \<Rightarrow> (string \<times> js_value) list" where
  "js_optional key enc v = (case v of None \<Rightarrow> [] | Some x \<Rightarrow> [(key, enc x)])"

definition js_dict :: "('a \<Rightarrow> js_value) \<Rightarrow> (string \<times> 'a) list \<Rightarrow> js_value" where
  "js_dict enc kvs = JObj (map (\<lambda>(k, v). (k, enc v)) kvs)"

fun js_RustTreeNode :: "RustTreeNode \<Rightarrow> js_value" where
  "js_RustTreeNode (RustTreeNode nm p ty cs atts sh dt) =
     JObj ([(''name'', JStr nm), (''path'', JStr p), (''node_type'', JStr ty),
            (''children'', JArr (map js_RustTreeNode cs)),
            (''attributes'', js_dict JStr atts)]
           @ js_optional ''shape'' (\<lambda>dims. JArr (map js_int dims)) sh
           @ js_optional ''dtype'' JStr dt)"

definition js_RustFileInfo :: "RustFileInfo \<Rightarrow> js_value" where
  "js_RustFileInfo r =
     JObj ([(''name'', JStr (info_name r)), (''path'', JStr (info_path r)),
            (''size_mb'', JNum (info_size_mb r)), (''modified'', JStr (info_modified r)),
            (''accessible'', JBool (info_accessible r)),
            (''groups_count'', js_int (info_groups_count r)),
            (''datasets_count'', js_int (info_datasets_count r))]
           @ js_optional ''error'' JStr (info_error r))"

definition js_RustFileStructure :: "RustFileStructure \<Rightarrow> js_value" where
  "js_RustFileStructure s =
     JObj ([(''file_path'', JStr (struct_file_path s)),
            (''root'', js_RustTreeNode (struct_root s)),
            (''total_groups'', js_int (struct_total_groups s)),
            (''total_datasets'', js_int (struct_total_datasets s))]
           @ js_optional ''error'' JStr (struct_error s))"

definition js_RustHecRasData :: "RustHecRasData \<Rightarrow> js_value" where
  "js_RustHecRasData d =
     JObj [(''file'', JStr (hec_file d)),
           (''geometry_data'', js_dict js_numbers (hec_geometry_data d)),
           (''results_data'', js_dict js_numbers (hec_results_data d)),
           (''metadata'', js_dict JStr (hec_metadata d)),
           (''extraction_summary'', js_dict js_int (hec_extraction_summary d))]"

text \<open>
  Reading a property, \<^verbatim>\<open>v.key\<close>: the value the object holds under the key (the last
  one, should the literal repeat a key), and \<^verbatim>\<open>undefined\<close> when the object has no such
  property or the value is no plain object (an array of numbers has no \<^verbatim>\<open>error\<close>).
\<close>

definition get_js :: "js_value \<Rightarrow> string \<Rightarrow> js_value" where
  "get_js v key =
     (case v of
        JObj props \<Rightarrow> (case map_of (rev props) key of None \<Rightarrow> JUndefined | Some x \<Rightarrow> x)
      | _ \<Rightarrow> JUndefined)"

text \<open>
  A structured result is a record (a plain object); its human-readable error is the
  string under \<^verbatim>\<open>error\<close>, if there is one.
\<close>

definition is_record :: "js_value \<Rightarrow> bool" where
  "is_record v = (case v of JObj props \<Rightarrow> True | _ \<Rightarrow> False)"

definition error_field :: "js_value \<Rightarrow> string option" where
  "error_field v = (case get_js v ''error'' of JStr msg \<Rightarrow> Some msg | _ \<Rightarrow> None)"

section \<open>Values of the operations\<close>

lemma try_catch_rethrow_id: "try_catch_rethrow body = body"
  by (cases body) (simp_all add: try_catch_rethrow_def)

lemma length_mockData: "length mockData = 10"
  by (simp add: mockData_def)

lemma slice_js_prefix: "0 \<le> n \<Longrightarrow> slice_js xs 0 n = take (nat n) xs"
  by (simp add: slice_js_def Let_def min_def max_def)

lemma slice_js_from_start:
  "slice_js xs 0 n =
     take (nat (if n < 0 then max (int (length xs) + n) 0 else min n (int (length xs)))) xs"
  by (simp add: slice_js_def Let_def)

lemma slice_js_is_prefix: "\<exists>k. k \<le> length xs \<and> slice_js xs 0 n = take k xs"
proof -
  obtain c where c: "slice_js xs 0 n = take c xs"
    using slice_js_from_start by blast
  have "take (min c (length xs)) xs = take c xs"
    by (simp add: min_def)
  with c have "min c (length xs) \<le> length xs \<and> slice_js xs 0 n = take (min c (length xs)) xs"
    by simp
  then show ?thesis
    by blast
qed

lemma readHdf5DatasetSample_value:
  "readHdf5DatasetSample fp dp N =
     Inr (slice_js mockData 0 (case N of None \<Rightarrow> 10 | Some n \<Rightarrow> n))"
  by (simp add: readHdf5DatasetSample_def try_catch_rethrow_def)

lemma structure_value:
  "analyzeHdf5Structure fp =
     Inr \<lparr>struct_file_path = fp,
          struct_root =
            RustTreeNode ''root'' ''/'' ''group''
              [RustTreeNode ''Geometry'' ''/Geometry'' ''group'' [] [] None None,
               RustTreeNode ''Results'' ''/Results'' ''group'' [] [] None None]
              [] None None,
          struct_total_groups = 5,
          struct_total_datasets = 15,
          struct_error = None\<rparr>"
  by (simp add: analyzeHdf5Structure_def try_catch_rethrow_def)

lemma info_value:
  "analyzeHdf5Info now fp =
     Inr \<lparr>info_name = or_js (pop_js (split_js CHR ''/'' fp))
                         (or_js (pop_js (split_js (CHR 0x5C) fp)) ''unknown''),
          info_path = fp, info_size_mb = 10, info_modified = toISOString now,
          info_accessible = True, info_groups_count = 5, info_datasets_count = 15,
          info_error = None\<rparr>"
  by (simp add: analyzeHdf5Info_def getFileStats_def try_catch_rethrow_def)

lemma resolves_to_cases:
  "resolves_to fp p =
     (if p = ''/'' \<or> p = ''/Geometry'' \<or> p = ''/Results'' then Some ''group'' else None)"
  by (simp add: resolves_to_def structure_value)

lemma toISOString_0: "toISOString 0 = ''1970-01-01T00:00:00.000Z''"
  by code_simp

lemma toISOString_1: "toISOString 1 = ''1970-01-01T00:00:00.001Z''"
  by code_simp

lemma toISOString_leap_day: "toISOString 1709210096789 = ''2024-02-29T12:34:56.789Z''"
  by code_simp

lemma name_of_unix_path:
  "or_js (pop_js (split_js CHR ''/'' ''/no/such/file.hdf''))
     (or_js (pop_js (split_js (CHR 0x5C) ''/no/such/file.hdf'')) ''unknown'') = ''file.hdf''"
  by (simp add: or_js_def pop_js_def)

section \<open>The sample operation: size and content of the result\<close>

text \<open>
  C1, as the code has it. For every file path, dataset path and element count \<open>N \<ge> 0\<close>
  the sample operation returns at most \<open>N\<close> elements: exactly \<open>min N 10\<close> of them, the
  first \<open>min N 10\<close> elements of its fixed ten-element sequence, whatever the length of
  the dataset the path names.
\<close>

theorem sample_length_amended:
  assumes "0 \<le> N"
  shows "\<exists>xs. readHdf5DatasetSample fp dp (Some N) = Inr xs
           \<and> int (length xs) \<le> N
           \<and> length xs = min (nat N) 10
           \<and> xs = take (nat N) mockData"
proof -
  have val: "readHdf5DatasetSample fp dp (Some N) = Inr (take (nat N) mockData)"
    using assms by (simp add: readHdf5DatasetSample_value slice_js_prefix)
  have len: "length (take (nat N) mockData) = min (nat N) 10"
    by (simp add: length_mockData min.commute)
  have "int (min (nat N) 10) \<le> N"
    using assms by simp
  with val len show ?thesis
    by simp
qed

text \<open>The amended C1 at \<open>N = 3\<close>: the first three elements.\<close>

theorem sample_length_amended_witness:
  "readHdf5DatasetSample ''plan.p01.hdf'' ''/Results/2D/MaxWSE'' (Some 3) = Inr [10.5, 11.2, 9.8]"
  using sample_length_amended [of 3 "''plan.p01.hdf''" "''/Results/2D/MaxWSE''"]
  by (simp add: mockData_def)

text \<open>
  C1 as stated fails. The dataset \<^verbatim>\<open>/Results/2D/MaxWSE\<close> has five elements (the extract
  operation returns all of them), so a sample of at most ten elements should have
  \<open>min 10 5 = 5\<close>; the sample operation returns ten.
\<close>

theorem sample_length_counterexample:
  "dataset_of ''plan.p01.hdf'' ''/Results/2D/MaxWSE'' = Some [10.5, 11.2, 9.8, 12.1, 10.9]
   \<and> readHdf5DatasetSample ''plan.p01.hdf'' ''/Results/2D/MaxWSE'' (Some 10) =
       Inr [10.5, 11.2, 9.8, 12.1, 10.9, 11.5, 10.3, 12.8, 9.5, 11.8]
   \<and> length [10.5, 11.2, 9.8, 12.1, 10.9, 11.5, 10.3, 12.8, 9.5, 11.8 :: real] \<noteq>
       min 10 (length [10.5, 11.2, 9.8, 12.1, 10.9 :: real])"
  by (simp add: dataset_of_def extractHecRasData_def try_catch_rethrow_def
      readHdf5DatasetSample_value slice_js_prefix mockData_def)

text \<open>
  C9. The result of the sample operation does not depend on the file path or on the
  dataset path: two calls with the same element count return the same sequence.
\<close>

theorem sample_independent_of_paths:
  "readHdf5DatasetSample filePath1 datasetPath1 maxElements =
   readHdf5DatasetSample filePath2 datasetPath2 maxElements"
  by (simp add: readHdf5DatasetSample_def)

text \<open>
  C5, as the code has it. No path of any file resolves to a Dataset entry in the tree
  the structure operation returns, and on every file and path the sample operation does
  not fail: it returns leading elements of its fixed ten-element sequence (all ten when
  the count is left out, the first five for a count of five), never a dataset-not-found
  error or any other.
\<close>

theorem sample_never_fails:
  "resolves_to fp dp \<noteq> Some ''dataset''
   \<and> (\<exists>k. k \<le> length mockData \<and> readHdf5DatasetSample fp dp N = Inr (take k mockData))
   \<and> readHdf5DatasetSample fp dp None = Inr mockData
   \<and> readHdf5DatasetSample fp dp (Some 5) = Inr (take 5 mockData)"
proof -
  have unresolved: "resolves_to fp dp \<noteq> Some ''dataset''"
    by (simp add: resolves_to_cases)
  have prefix: "\<exists>k. k \<le> length mockData \<and> readHdf5DatasetSample fp dp N = Inr (take k mockData)"
    using slice_js_is_prefix [of mockData "case N of None \<Rightarrow> 10 | Some n \<Rightarrow> n"]
    by (simp add: readHdf5DatasetSample_value)
  have all: "readHdf5DatasetSample fp dp None = Inr mockData"
    by (simp add: readHdf5DatasetSample_value slice_js_prefix length_mockData)
  have five: "readHdf5DatasetSample fp dp (Some 5) = Inr (take 5 mockData)"
    by (simp add: readHdf5DatasetSample_value slice_js_prefix)
  from unresolved prefix all five show ?thesis
    by blast
qed

text \<open>
  C5 as stated fails: \<^verbatim>\<open>/Geometry\<close> resolves to a Group, and the sample operation
  returns five numbers for it.
\<close>

theorem sample_on_group_counterexample:
  "resolves_to ''plan.p01.hdf'' ''/Geometry'' = Some ''group''
   \<and> readHdf5DatasetSample ''plan.p01.hdf'' ''/Geometry'' (Some 5) =
       Inr [10.5, 11.2, 9.8, 12.1, 10.9]"
  by (simp add: resolves_to_cases readHdf5DatasetSample_value slice_js_prefix mockData_def)

section \<open>The structure operation: counts and tree\<close>

text \<open>
  C2, as the code has it. For every file path the structure operation reports
  \<open>total_groups = 5\<close> and \<open>total_datasets = 15\<close>, and returns a root with exactly two
  nodes below it.
\<close>

theorem structure_counts_amended:
  "\<exists>s. analyzeHdf5Structure fp = Inr s
       \<and> struct_total_groups s = 5 \<and> struct_total_datasets s = 15
       \<and> non_root_nodes (struct_root s) = 2"
  by (simp add: structure_value non_root_nodes_def)

text \<open>C2 as stated fails: the reported totals add up to 20, the tree has 2 non-root nodes.\<close>

theorem structure_counts_counterexample:
  "reported_total ''plan.p01.hdf'' = Some 20 \<and> reachable_total ''plan.p01.hdf'' = Some 2"
  by (simp add: reported_total_def reachable_total_def structure_value non_root_nodes_def)

text \<open>
  C7. The tree the structure operation returns has the root path \<^verbatim>\<open>/\<close>, every node
  below the root carries the slash-delimited names on the way down to it as its path, and
  every node of kind Dataset has no children (the tree has no such node).
\<close>

theorem structure_tree_invariant:
  "\<exists>s. analyzeHdf5Structure fp = Inr s \<and> tree_invariant (struct_root s)"
  by (simp add: structure_value tree_invariant_def path_of_names_def)

text \<open>C7 on one file, with the paths of the tree spelled out.\<close>

theorem structure_tree_invariant_witness:
  "\<exists>s. analyzeHdf5Structure ''plan.p01.hdf'' = Inr s
       \<and> path (struct_root s) = ''/''
       \<and> map path (children (struct_root s)) = [''/Geometry'', ''/Results'']
       \<and> tree_invariant (struct_root s)"
  using structure_tree_invariant [of "''plan.p01.hdf''"]
  by (auto simp add: structure_value)

text \<open>
  The invariant tells trees apart: it rejects a node whose path is not made of the names
  above it and a Dataset with a child, and accepts a Dataset leaf two levels down.
\<close>

lemma tree_invariant_rejects_wrong_path:
  "\<not> tree_invariant (RustTreeNode ''root'' ''/'' ''group''
        [RustTreeNode ''Geometry'' ''/Results'' ''group'' [] [] None None] [] None None)"
  by (simp add: tree_invariant_def path_of_names_def)

lemma tree_invariant_rejects_dataset_with_children:
  "\<not> tree_invariant (RustTreeNode ''root'' ''/'' ''group''
        [RustTreeNode ''D'' ''/D'' ''dataset''
           [RustTreeNode ''E'' ''/D/E'' ''group'' [] [] None None] [] None None] [] None None)"
  by (simp add: tree_invariant_def path_of_names_def)

lemma tree_invariant_accepts_nested:
  "tree_invariant (RustTreeNode ''root'' ''/'' ''group''
        [RustTreeNode ''Results'' ''/Results'' ''group''
           [RustTreeNode ''MaxWSE'' ''/Results/MaxWSE'' ''dataset'' [] [] (Some [10]) (Some ''f32'')]
           [] None None] [] None None)"
  by (simp add: tree_invariant_def path_of_names_def)

section \<open>The info operation\<close>

text \<open>
  C3, as the code has it. Two invocations of the info operation on the same path return
  records that agree in every field but \<open>modified\<close>; \<open>modified\<close> is the time of the
  call, printed to the millisecond. The two results are equal when both calls read the
  same time.
\<close>

theorem info_repeatable_up_to_clock:
  "\<exists>r1 r2. analyzeHdf5Info t1 fp = Inr r1 \<and> analyzeHdf5Info t2 fp = Inr r2
       \<and> r2 = r1\<lparr>info_modified := toISOString t2\<rparr>
       \<and> info_modified r1 = toISOString t1"
  by (simp add: info_value)

text \<open>C3 as stated fails: two calls one millisecond apart return different records.\<close>

theorem info_not_idempotent_counterexample:
  "analyzeHdf5Info 0 ''plan.p01.hdf'' \<noteq> analyzeHdf5Info 1 ''plan.p01.hdf''"
  by (simp add: info_value toISOString_0 toISOString_1)

text \<open>
  C4, as the code has it. For every path, whether or not it names an existing file, the
  info operation does not throw and returns a record with \<open>accessible = true\<close> and no
  error string.
\<close>

theorem info_always_accessible:
  "\<exists>r. analyzeHdf5Info now fp = Inr r \<and> info_accessible r \<and> info_error r = None
       \<and> info_path r = fp"
  by (simp add: info_value)

text \<open>
  C4 as stated fails: for a path that names no file the whole record is as below, with
  \<open>accessible = true\<close> and no error. The operation consults no file system, so the
  record is the same whether or not the file exists.
\<close>

theorem info_missing_file_counterexample:
  "analyzeHdf5Info 0 ''/no/such/file.hdf'' =
     Inr \<lparr>info_name = ''file.hdf'', info_path = ''/no/such/file.hdf'', info_size_mb = 10,
          info_modified = ''1970-01-01T00:00:00.000Z'', info_accessible = True,
          info_groups_count = 5, info_datasets_count = 15, info_error = None\<rparr>"
  by (simp only: info_value toISOString_0 name_of_unix_path)

section \<open>What the five operations return\<close>

lemma facade_operations_never_throw:
  "(\<exists>r. analyzeHdf5Info now filePath = Inr r \<and> info_error r = None)
   \<and> (\<exists>s. analyzeHdf5Structure filePath = Inr s \<and> struct_error s = None)
   \<and> (\<exists>ds. listHdf5Datasets filePath = Inr ds)
   \<and> (\<exists>d. extractHecRasData filePath = Inr d)
   \<and> (\<exists>xs. readHdf5DatasetSample filePath datasetPath maxElements = Inr xs)"
  by (simp add: info_value structure_value listHdf5Datasets_def extractHecRasData_def
      readHdf5DatasetSample_def try_catch_rethrow_def)

lemma array_is_no_record: "\<not> is_record (JArr vs)" "error_field (JArr vs) = None"
  by (simp_all add: error_field_def get_js_def is_record_def)

lemma info_js_value:
  "analyzeHdf5Info now fp = Inr r \<Longrightarrow>
   js_RustFileInfo r =
     JObj [(''name'', JStr (or_js (pop_js (split_js CHR ''/'' fp))
                         (or_js (pop_js (split_js (CHR 0x5C) fp)) ''unknown''))),
           (''path'', JStr fp), (''size_mb'', JNum 10),
           (''modified'', JStr (toISOString now)), (''accessible'', JBool True),
           (''groups_count'', JNum 5), (''datasets_count'', JNum 15)]"
  by (auto simp add: info_value js_RustFileInfo_def js_optional_def js_int_def)

lemma structure_js_value:
  "analyzeHdf5Structure fp = Inr s \<Longrightarrow>
   js_RustFileStructure s =
     JObj [(''file_path'', JStr fp),
           (''root'',
            JObj [(''name'', JStr ''root''), (''path'', JStr ''/''),
                  (''node_type'', JStr ''group''),
                  (''children'',
                   JArr [JObj [(''name'', JStr ''Geometry''), (''path'', JStr ''/Geometry''),
                               (''node_type'', JStr ''group''), (''children'', JArr []),
                               (''attributes'', JObj [])],
                         JObj [(''name'', JStr ''Results''), (''path'', JStr ''/Results''),
                               (''node_type'', JStr ''group''), (''children'', JArr []),
                               (''attributes'', JObj [])]]),
                  (''attributes'', JObj [])]),
           (''total_groups'', JNum 5), (''total_datasets'', JNum 15)]"
  by (auto simp add: structure_value js_RustFileStructure_def js_optional_def js_int_def
      js_dict_def)

lemma extract_js_value:
  "extractHecRasData fp = Inr d \<Longrightarrow>
   js_RustHecRasData d =
     JObj [(''file'', JStr fp),
           (''geometry_data'',
            JObj [(''/Geometry/2D Flow Areas/Area 2D/Cells Center Coordinate'',
                   JArr [JNum 1, JNum 2, JNum 3, JNum 4, JNum 5])]),
           (''results_data'',
            JObj [(''/Results/2D/MaxWSE'',
                   JArr [JNum 10.5, JNum 11.2, JNum 9.8, JNum 12.1, JNum 10.9])]),
           (''metadata'',
            JObj [(''File Type'', JStr ''HEC-RAS Plan File''), (''Version'', JStr ''6.3.1'')]),
           (''extraction_summary'',
            JObj [(''geometry_datasets'', JNum 1), (''results_datasets'', JNum 1)])]"
  by (auto simp add: extractHecRasData_def try_catch_rethrow_def js_RustHecRasData_def
      js_dict_def js_numbers_def js_int_def)

text \<open>
  C6, as the code has it. Each of the five operations (info, structure, datasets,
  extract, sample) returns on every input, nothing is thrown to the caller, and what it
  returns is its plain success value with no error field: a record for info, structure
  and extract, a bare array for datasets and sample.
\<close>

theorem facade_results_are_plain_values:
  "(\<exists>r. analyzeHdf5Info now filePath = Inr r \<and> info_error r = None
        \<and> is_record (js_RustFileInfo r) \<and> error_field (js_RustFileInfo r) = None)
   \<and> (\<exists>s. analyzeHdf5Structure filePath = Inr s \<and> struct_error s = None
        \<and> is_record (js_RustFileStructure s) \<and> error_field (js_RustFileStructure s) = None)
   \<and> (\<exists>ds. listHdf5Datasets filePath = Inr ds
        \<and> \<not> is_record (js_strings ds) \<and> error_field (js_strings ds) = None)
   \<and> (\<exists>d. extractHecRasData filePath = Inr d
        \<and> is_record (js_RustHecRasData d) \<and> error_field (js_RustHecRasData d) = None)
   \<and> (\<exists>xs. readHdf5DatasetSample filePath datasetPath maxElements = Inr xs
        \<and> \<not> is_record (js_numbers xs) \<and> error_field (js_numbers xs) = None)"
proof -
  obtain r s ds d xs where
    r: "analyzeHdf5Info now filePath = Inr r" "info_error r = None" and
    s: "analyzeHdf5Structure filePath = Inr s" "struct_error s = None" and
    ds: "listHdf5Datasets filePath = Inr ds" and
    d: "extractHecRasData filePath = Inr d" and
    xs: "readHdf5DatasetSample filePath datasetPath maxElements = Inr xs"
    using facade_operations_never_throw [of now filePath datasetPath maxElements] by blast
  have "is_record (js_RustFileInfo r) \<and> error_field (js_RustFileInfo r) = None"
    by (simp add: info_js_value [OF r(1)] is_record_def error_field_def get_js_def)
  moreover have "is_record (js_RustFileStructure s) \<and> error_field (js_RustFileStructure s) = None"
    by (simp add: structure_js_value [OF s(1)] is_record_def error_field_def get_js_def)
  moreover have "\<not> is_record (js_strings ds) \<and> error_field (js_strings ds) = None"
    by (simp add: js_strings_def array_is_no_record)
  moreover have "is_record (js_RustHecRasData d) \<and> error_field (js_RustHecRasData d) = None"
    by (simp add: extract_js_value [OF d] is_record_def error_field_def get_js_def)
  moreover have "\<not> is_record (js_numbers xs) \<and> error_field (js_numbers xs) = None"
    by (simp add: js_numbers_def array_is_no_record)
  ultimately show ?thesis
    using r s ds d xs by blast
qed

text \<open>
  C6 as stated fails: what the sample operation returns is an array of numbers, not a
  record, and it has no error field.
\<close>

theorem facade_error_field_counterexample:
  "readHdf5DatasetSample ''plan.p01.hdf'' ''/Results/2D/MaxWSE'' (Some 5) =
     Inr [10.5, 11.2, 9.8, 12.1, 10.9]
   \<and> js_numbers [10.5, 11.2, 9.8, 12.1, 10.9] =
       JArr [JNum 10.5, JNum 11.2, JNum 9.8, JNum 12.1, JNum 10.9]
   \<and> \<not> is_record (JArr [JNum 10.5, JNum 11.2, JNum 9.8, JNum 12.1, JNum 10.9])
   \<and> error_field (JArr [JNum 10.5, JNum 11.2, JNum 9.8, JNum 12.1, JNum 10.9]) = None"
  by (simp add: readHdf5DatasetSample_value slice_js_prefix mockData_def js_numbers_def
      array_is_no_record)

text \<open>
  The folder scan is not one of the five: it throws when the backend reports a failure,
  and passes an exception of the backend on.
\<close>

lemma findHdf5Files_throws_on_failure:
  "\<not> success r \<Longrightarrow>
   findHdf5Files clock (Inr r) folderPath =
     Inl (Error (or_js (response_error r) ''Error finding HDF files''))"
  by (simp add: findHdf5Files_def try_catch_rethrow_def)

lemma findHdf5Files_rethrows_backend:
  "findHdf5Files clock (Inl e) folderPath = Inl e"
  by (simp add: findHdf5Files_def try_catch_rethrow_def)

section \<open>The command-line front end\<close>

lemma isl_with_context: "isl (with_context msg r) = isl r"
  by (cases r) (simp_all add: with_context_def)

lemma exit_code_zero_iff: "exit_code r = 0 \<longleftrightarrow> \<not> isl r"
  by (cases r) (simp_all add: exit_code_def)

lemma wrappers_exit:
  "exit_matches_calls lib (analyze_file_info lib fp)"
  "exit_matches_calls lib (analyze_file_structure lib fp)"
  "exit_matches_calls lib (list_datasets lib fp)"
  "exit_matches_calls lib (analyze_hecras_data lib fp)"
  "exit_matches_calls lib (read_dataset_sample lib fp dp n)"
  by (simp_all add: exit_matches_calls_def exit_code_zero_iff isl_with_context
      analyze_file_info_def analyze_file_structure_def list_datasets_def
      analyze_hecras_data_def read_dataset_sample_def)

lemma no_call_exit:
  "\<forall>c. Run c \<notin> set evs \<Longrightarrow> exit_matches_calls lib (evs, Inr ())"
  by (simp add: exit_matches_calls_def exit_code_def)

lemma main_exit_matches_calls: "exit_matches_calls lib (main lib args)"
  unfolding main_def Let_def
  by (simp add: wrappers_exit no_call_exit)

lemma invalid_usage_no_call:
  assumes "invalid_usage args"
  shows "snd (main lib args) = Inr () \<and> (\<forall>c. Run c \<notin> set (fst (main lib args)))"
  using assms
  unfolding invalid_usage_def unknown_subcommand_def missing_arguments_def main_def Let_def
  by auto

lemma unknown_subcommand_prints:
  assumes "unknown_subcommand args"
  shows "main lib args =
     ([Eprintln (''Error: '' @ ''Comando desconocido '' @ [CHR 0x27] @ args ! 1 @ [CHR 0x27]),
       Print_usage], Inr ())"
  using assms unfolding unknown_subcommand_def main_def Let_def
  by simp

lemma missing_arguments_prints:
  assumes "missing_arguments args"
  shows "main lib args =
     ([Eprintln (''Error: '' @ ''Se requiere la ruta del archivo HDF5'' @
         (if args ! 1 = ''sample'' then '' y el path del dataset'' else [])),
       Print_usage], Inr ())"
  using assms unfolding missing_arguments_def main_def Let_def
  by auto

lemma invalid_usage_prints:
  assumes "invalid_usage args"
  shows "\<exists>msg. main lib args = ([Eprintln (''Error: '' @ msg), Print_usage], Inr ())"
  using assms unknown_subcommand_prints [of args lib] missing_arguments_prints [of args lib]
  unfolding invalid_usage_def by blast

text \<open>
  C8, as the code has it. On every invalid usage (unknown subcommand, or a subcommand
  with missing required arguments) the front end prints one error line and then the
  usage text, calls no operation of the library, and exits with code 0. In general it
  exits with 0 exactly when no library call it made failed, so it exits with 0 on
  success and with a non-zero code only when the requested operation itself fails.
\<close>

theorem cli_exit_code_amended:
  "(invalid_usage args \<longrightarrow>
      exit_code (snd (main lib args)) = 0
      \<and> (\<exists>msg. fst (main lib args) = [Eprintln (''Error: '' @ msg), Print_usage])
      \<and> (\<forall>c. Run c \<notin> set (fst (main lib args))))
   \<and> (exit_code (snd (main lib args)) = 0 \<longleftrightarrow>
        (\<forall>c. Run c \<in> set (fst (main lib args)) \<longrightarrow> \<not> isl (lib c)))"
proof -
  have "exit_code (snd (main lib args)) = 0
      \<and> (\<exists>msg. fst (main lib args) = [Eprintln (''Error: '' @ msg), Print_usage])
      \<and> (\<forall>c. Run c \<notin> set (fst (main lib args)))" if "invalid_usage args"
  proof -
    from that obtain msg where
      m: "main lib args = ([Eprintln (''Error: '' @ msg), Print_usage], Inr ())"
      using invalid_usage_prints by blast
    have "fst (main lib args) = [Eprintln (''Error: '' @ msg), Print_usage]"
      by (simp add: m)
    moreover have "exit_code (snd (main lib args)) = 0"
      by (simp add: m exit_code_def)
    moreover have "\<forall>c. Run c \<notin> set (fst (main lib args))"
      by (simp add: m)
    ultimately show ?thesis
      by blast
  qed
  moreover have "exit_code (snd (main lib args)) = 0 \<longleftrightarrow>
        (\<forall>c. Run c \<in> set (fst (main lib args)) \<longrightarrow> \<not> isl (lib c))"
    using main_exit_matches_calls [of lib args] by (simp add: exit_matches_calls_def)
  ultimately show ?thesis
    by blast
qed

text \<open>
  The amended C8 on three runs: \<^verbatim>\<open>info\<close> without a file prints the error line and
  the usage text and exits with 0; \<^verbatim>\<open>info\<close> with a file exits with a non-zero code
  when the library fails and with 0 when it succeeds.
\<close>

theorem cli_exit_code_amended_witness:
  "invalid_usage [''hdf5_analyzer'', ''info'']
   \<and> fst (main analyzer_failing [''hdf5_analyzer'', ''info'']) =
       [Eprintln ''Error: Se requiere la ruta del archivo HDF5'', Print_usage]
   \<and> exit_code (snd (main analyzer_failing [''hdf5_analyzer'', ''info''])) = 0
   \<and> fst (main analyzer_failing [''hdf5_analyzer'', ''info'', ''plan.p01.hdf'']) =
       [Run (Get_file_info ''plan.p01.hdf'')]
   \<and> isl (analyzer_failing (Get_file_info ''plan.p01.hdf''))
   \<and> exit_code (snd (main analyzer_failing [''hdf5_analyzer'', ''info'', ''plan.p01.hdf''])) \<noteq> 0
   \<and> exit_code (snd (main analyzer_ok [''hdf5_analyzer'', ''info'', ''plan.p01.hdf''])) = 0"
proof -
  have inv: "invalid_usage [''hdf5_analyzer'', ''info'']"
    by (simp add: invalid_usage_def missing_arguments_def)
  have printed: "fst (main lib [''hdf5_analyzer'', ''info'']) =
       [Eprintln ''Error: Se requiere la ruta del archivo HDF5'', Print_usage]" for lib
    by (simp add: main_def)
  have run: "fst (main lib [''hdf5_analyzer'', ''info'', ''plan.p01.hdf'']) =
       [Run (Get_file_info ''plan.p01.hdf'')]" for lib
    by (simp add: main_def analyze_file_info_def)
  have bad: "isl (analyzer_failing (Get_file_info ''plan.p01.hdf''))"
    by (simp add: analyzer_failing_def)
  have good: "\<not> isl (analyzer_ok c)" for c
    by (simp add: analyzer_ok_def)
  from inv cli_exit_code_amended [of "[''hdf5_analyzer'', ''info'']" analyzer_failing]
  have a: "exit_code (snd (main analyzer_failing [''hdf5_analyzer'', ''info''])) = 0"
    by blast
  from cli_exit_code_amended [of "[''hdf5_analyzer'', ''info'', ''plan.p01.hdf'']" analyzer_failing]
    run [of analyzer_failing] bad
  have b: "exit_code (snd (main analyzer_failing [''hdf5_analyzer'', ''info'', ''plan.p01.hdf''])) \<noteq> 0"
    by simp
  from cli_exit_code_amended [of "[''hdf5_analyzer'', ''info'', ''plan.p01.hdf'']" analyzer_ok] good
  have c: "exit_code (snd (main analyzer_ok [''hdf5_analyzer'', ''info'', ''plan.p01.hdf''])) = 0"
    by simp
  from inv printed [of analyzer_failing] a run [of analyzer_failing] bad b c show ?thesis
    by simp
qed

text \<open>
  C8 as stated fails: an unknown subcommand, and \<^verbatim>\<open>sample\<close> without a dataset path,
  are invalid usage and exit with code 0.
\<close>

theorem cli_invalid_usage_counterexample:
  "invalid_usage [''hdf5_analyzer'', ''bogus'']
   \<and> exit_code (snd (main analyzer_failing [''hdf5_analyzer'', ''bogus''])) = 0
   \<and> invalid_usage [''hdf5_analyzer'', ''sample'', ''plan.p01.hdf'']
   \<and> exit_code (snd (main analyzer_failing [''hdf5_analyzer'', ''sample'', ''plan.p01.hdf''])) = 0"
  by (simp add: invalid_usage_def unknown_subcommand_def missing_arguments_def main_def
      exit_code_def)

text \<open>
  C10. In the \<^verbatim>\<open>sample\<close> subcommand, when the element count is absent or does not
  parse as an unsigned integer, the sample operation of the library is called with
  \<open>max_elements = 10\<close>.
\<close>

theorem cli_sample_default_max_elements:
  assumes "4 \<le> length args" and "args ! 1 = ''sample''"
    and "length args = 4 \<or> parse_usize (args ! 4) = None"
  shows "main lib args = read_dataset_sample lib (args ! 2) (args ! 3) 10
         \<and> fst (main lib args) = [Run (Read_dataset_sample (args ! 2) (args ! 3) 10)]"
proof -
  have "(if length args > 4
         then (case parse_usize (args ! 4) of Some n \<Rightarrow> n | None \<Rightarrow> 10) else 10) = 10"
    using assms(3) by auto
  with assms(1,2) have "main lib args = read_dataset_sample lib (args ! 2) (args ! 3) 10"
    by (simp add: main_def Let_def)
  then show ?thesis
    by (simp add: read_dataset_sample_def)
qed

lemma parse_usize_abc: "parse_usize ''abc'' = None"
  by (simp add: parse_usize_def to_digit_def)

lemma parse_usize_negative: "parse_usize ''-5'' = None"
  by (simp add: parse_usize_def to_digit_def)

lemma parse_usize_20: "parse_usize ''20'' = Some 20"
  by (simp add: parse_usize_def to_digit_def usize_MAX_def)

lemma parse_usize_overflow: "parse_usize ''18446744073709551616'' = None"
  by (simp add: parse_usize_def to_digit_def usize_MAX_def)

text \<open>A count that parses is passed on as it is.\<close>

lemma cli_sample_explicit_count:
  "fst (main lib [''hdf5_analyzer'', ''sample'', ''plan.p01.hdf'', ''/Results/2D/MaxWSE'', ''20''])
     = [Run (Read_dataset_sample ''plan.p01.hdf'' ''/Results/2D/MaxWSE'' 20)]"
  by (simp add: main_def Let_def parse_usize_20 read_dataset_sample_def)

text \<open>C10 on two command lines: the count absent, and the count \<^verbatim>\<open>abc\<close>.\<close>

theorem cli_sample_default_max_elements_witness:
  "fst (main analyzer_ok [''hdf5_analyzer'', ''sample'', ''plan.p01.hdf'', ''/Results/2D/MaxWSE''])
     = [Run (Read_dataset_sample ''plan.p01.hdf'' ''/Results/2D/MaxWSE'' 10)]
   \<and> parse_usize ''abc'' = None
   \<and> fst (main analyzer_ok
        [''hdf5_analyzer'', ''sample'', ''plan.p01.hdf'', ''/Results/2D/MaxWSE'', ''abc''])
     = [Run (Read_dataset_sample ''plan.p01.hdf'' ''/Results/2D/MaxWSE'' 10)]"
proof -
  let ?absent = "[''hdf5_analyzer'', ''sample'', ''plan.p01.hdf'', ''/Results/2D/MaxWSE'']"
  let ?unparsable = "?absent @ [''abc'']"
  have "fst (main analyzer_ok ?absent) = [Run (Read_dataset_sample (?absent ! 2) (?absent ! 3) 10)]"
    by (rule conjunct2 [OF cli_sample_default_max_elements]) simp_all
  moreover have "fst (main analyzer_ok ?unparsable) =
      [Run (Read_dataset_sample (?unparsable ! 2) (?unparsable ! 3) 10)]"
    by (rule conjunct2 [OF cli_sample_default_max_elements]) (simp_all add: parse_usize_abc)
  ultimately show ?thesis
    by (simp add: parse_usize_abc)
qed

end
